theory Spec2Isabelle
  imports Main
begin

section \<open>Data model\<close>

text \<open>
  The repository is an Express application whose only logic is the token issuer
  \<^verbatim>\<open>createJWT\<close> and the middleware \<^verbatim>\<open>protect\<close> of \<^verbatim>\<open>src/modules/auth.ts\<close>
  (given in the README), mounted by \<^verbatim>\<open>src/server.ts\<close> and started by
  \<^verbatim>\<open>src/index.ts\<close>.

  JavaScript strings are modelled as \<^typ>\<open>string\<close>; a value that may be
  \<^verbatim>\<open>undefined\<close> is an \<^typ>\<open>'a option\<close>. A JSON object is an association list in
  insertion order.
\<close>

datatype jvalue = JStr string | JNum int

type_synonym jobject = "(string \<times> jvalue) list"

text \<open>\<^verbatim>\<open>process.env\<close>: a variable that is not set reads as \<^verbatim>\<open>undefined\<close>.\<close>

type_synonym env = "string \<rightharpoonup> string"

text \<open>
  The errors a call into the \<^verbatim>\<open>jsonwebtoken\<close> package can throw. The package is a
  dependency, not code of the repository, so the theory takes it as a parameter: a
  record of the two functions the code calls. Each gets the clock (seconds) as an
  argument, as both read it; an exception is the \<open>Inl\<close> result.
\<close>

datatype jwt_error = ConfigurationError | JsonWebTokenError | TokenExpiredError

record jwt =
  sign :: "jobject \<Rightarrow> string option \<Rightarrow> nat \<Rightarrow> jwt_error + string"
  verify :: "string \<Rightarrow> string option \<Rightarrow> nat \<Rightarrow> jwt_error + jobject"

text \<open>
  The user handed to \<^verbatim>\<open>createJWT\<close>: the two fields it reads; whatever else the
  object carries is the record's extension.
\<close>

record user =
  user_id :: jvalue
  username :: jvalue

text \<open>
  One request in flight: the request object (the header \<^verbatim>\<open>protect\<close> reads and the
  property it writes), the response object (status code and the bodies passed to
  \<^verbatim>\<open>res.send\<close>, in order) and the console. The objects are mutable: what a handler
  did to them before it threw stays done.
\<close>

text \<open>
  What a \<^verbatim>\<open>catch\<close> block can receive: an error of the package, or whatever a handler
  further down the pipeline throws.
\<close>

datatype thrown = JwtThrown jwt_error | Thrown string

datatype log = Out string | OutObject jobject | Err thrown

record request =
  authorization :: "string option"
  user :: "jobject option"

record response =
  status :: nat
  sent :: "string list"

record exchange =
  req :: request
  res :: response
  console :: "log list"

text \<open>
  A handler as the pipeline runs it, and so the \<^verbatim>\<open>next\<close> a middleware is given: it
  leaves the exchange changed and either returns (\<open>None\<close>) or throws (\<open>Some e\<close>).
\<close>

type_synonym handler = "exchange \<Rightarrow> thrown option \<times> exchange"

section \<open>Express and console primitives\<close>

definition res_status :: "nat \<Rightarrow> exchange \<Rightarrow> exchange" where
  "res_status code s = s\<lparr>res := (res s)\<lparr>status := code\<rparr>\<rparr>"

definition res_send :: "string \<Rightarrow> exchange \<Rightarrow> exchange" where
  "res_send body s = s\<lparr>res := (res s)\<lparr>sent := sent (res s) @ [body]\<rparr>\<rparr>"

definition console_log :: "log \<Rightarrow> exchange \<Rightarrow> exchange" where
  "console_log entry s = s\<lparr>console := console s @ [entry]\<rparr>"

definition set_req_user :: "jobject \<Rightarrow> exchange \<Rightarrow> exchange" where
  "set_req_user payload s = s\<lparr>req := (req s)\<lparr>user := Some payload\<rparr>\<rparr>"

section \<open>String splitting\<close>

text \<open>
  \<^verbatim>\<open>String.prototype.split\<close> with a one-character separator: the string is cut at
  every occurrence of the separator, so \<open>n\<close> separators give \<open>n + 1\<close> parts, some of
  them possibly empty, and the empty string gives one empty part. The separator is a
  predicate on characters so that the same function also splits on a class of
  characters.
\<close>

fun split_on :: "(char \<Rightarrow> bool) \<Rightarrow> string \<Rightarrow> string list" where
  "split_on sep [] = [[]]"
| "split_on sep (c # cs) =
     (if sep c then [] # split_on sep cs
      else (case split_on sep cs of
              [] \<Rightarrow> [[c]]
            | p # ps \<Rightarrow> (c # p) # ps))"

definition is_space :: "char \<Rightarrow> bool" where
  "is_space c = (c = CHR '' '')"

text \<open>\<^verbatim>\<open>bearer.split(" ")\<close>\<close>

definition split_space :: "string \<Rightarrow> string list" where
  "split_space bearer = split_on is_space bearer"

text \<open>
  The destructuring \<^verbatim>\<open>const [, token] = ...\<close>: the element at index 1, or
  \<^verbatim>\<open>undefined\<close> when the array is shorter.
\<close>

fun second :: "'a list \<Rightarrow> 'a option" where
  "second (x # y # ys) = Some y"
| "second ys = None"

text \<open>
  JavaScript truthiness of a string that may be undefined: \<^verbatim>\<open>!v\<close> holds for
  \<^verbatim>\<open>undefined\<close> and for the empty string.
\<close>

fun truthy :: "string option \<Rightarrow> bool" where
  "truthy None = False"
| "truthy (Some v) = (v \<noteq> [])"

section \<open>The token issuer and the gate\<close>

text \<open>
  \<^verbatim>\<open>createJWT\<close> signs the object \<^verbatim>\<open>{ id: user.id, username: user.username }\<close> with
  \<^verbatim>\<open>process.env.JWT_SECRET\<close> and returns what \<^verbatim>\<open>jwt.sign\<close> returns; an exception of
  \<^verbatim>\<open>jwt.sign\<close> propagates.
\<close>

definition createJWT :: "jwt \<Rightarrow> env \<Rightarrow> nat \<Rightarrow> 'a user_scheme \<Rightarrow> jwt_error + string" where
  "createJWT jwt env now u =
     sign jwt [(''id'', user_id u), (''username'', username u)] (env ''JWT_SECRET'') now"



text \<open>
  The \<^verbatim>\<open>catch\<close> block of \<^verbatim>\<open>protect\<close>: \<^verbatim>\<open>console.error(e)\<close>, status 401, the body.
\<close>

definition caught :: "thrown \<Rightarrow> exchange \<Rightarrow> exchange" where
  "caught e s = res_send ''Not authorized'' (res_status 401 (console_log (Err e) s))"

text \<open>
  The call \<^verbatim>\<open>next()\<close> stands inside the \<^verbatim>\<open>try\<close> block. When the continuation returns,
  \<^verbatim>\<open>protect\<close> returns after it and does nothing more; when it throws, the \<^verbatim>\<open>catch\<close>
  block runs on the exchange as the continuation left it.
\<close>

definition after_next :: "thrown option \<times> exchange \<Rightarrow> exchange" where
  "after_next r = (case r of (None, s') \<Rightarrow> s' | (Some e, s') \<Rightarrow> caught e s')"

text \<open>
  \<^verbatim>\<open>protect\<close>, branch by branch. \<open>next\<close> is the continuation Express passes in: the
  rest of the pipeline, run on the exchange as \<^verbatim>\<open>protect\<close> leaves it. The two inner
  \<open>case\<close> expressions on \<open>bearer\<close> and \<open>token\<close> read a value already tested to be a
  non-empty string; their \<open>None\<close> branches are never reached. An exception of
  \<^verbatim>\<open>jwt.verify\<close> and an exception of \<open>next\<close> reach the same \<^verbatim>\<open>catch\<close> block.
\<close>

definition protect :: "jwt \<Rightarrow> env \<Rightarrow> nat \<Rightarrow> handler \<Rightarrow> exchange \<Rightarrow> exchange" where
  "protect jwt env now next s =
     (let bearer = authorization (req s) in
      if \<not> truthy bearer then res_send ''Not authorized'' (res_status 401 s)
      else
        let token = second (split_space (case bearer of Some b \<Rightarrow> b | None \<Rightarrow> [])) in
        if \<not> truthy token then
          res_send ''Not authorized'' (res_status 401 (console_log (Out ''here'') s))
        else
          (case verify jwt (case token of Some t \<Rightarrow> t | None \<Rightarrow> []) (env ''JWT_SECRET'') now of
             Inr payload \<Rightarrow>
               after_next (next (console_log (OutObject payload) (set_req_user payload s)))
           | Inl e \<Rightarrow> caught (JwtThrown e) s))"

section \<open>The server\<close>

text \<open>
  \<^verbatim>\<open>customLogger\<close> of \<^verbatim>\<open>server.ts\<close>: logs a line and calls \<open>next\<close>; it has no
  \<^verbatim>\<open>try\<close>, so what \<open>next\<close> throws it throws.
\<close>

definition customLogger :: "string \<Rightarrow> handler \<Rightarrow> handler" where
  "customLogger message next s = next (console_log (Out (''Hello from '' @ message)) s)"

text \<open>
  \<^verbatim>\<open>app.use('/api', protect, router)\<close> of \<^verbatim>\<open>server.ts\<close>, after the application-wide
  \<^verbatim>\<open>app.use(customLogger('Customer Logger Test'))\<close>: a request under \<^verbatim>\<open>/api\<close> passes
  the logger, then the gate, then the router. (The \<^verbatim>\<open>cors\<close>, \<^verbatim>\<open>morgan\<close> and body-parser
  middleware before them leave alone what the gate reads or writes of the request and
  the response, and are left out.)
\<close>

definition app_api :: "jwt \<Rightarrow> env \<Rightarrow> nat \<Rightarrow> handler \<Rightarrow> handler" where
  "app_api jwt env now router s =
     customLogger ''Customer Logger Test'' (\<lambda>s'. (None, protect jwt env now router s')) s"

text \<open>
  \<^verbatim>\<open>index.ts\<close>: \<^verbatim>\<open>dotenv.config()\<close>, then \<^verbatim>\<open>app.listen(3001)\<close>. The argument is
  \<^verbatim>\<open>process.env\<close> as \<^verbatim>\<open>dotenv.config()\<close> leaves it; nothing in the file reads it.
  A process that serves traffic has \<open>listening = Some port\<close>.
\<close>

record process =
  proc_env :: env
  listening :: "nat option"

definition index_main :: "env \<Rightarrow> process" where
  "index_main env = \<lparr>proc_env = env, listening = Some 3001\<rparr>"

text \<open>
  Two handlers to stand for the router: one that does nothing and returns, as the
  placeholder handlers \<^verbatim>\<open>(req, res) => {}\<close> of the router do, and one that throws.
\<close>

definition no_op :: handler where
  "no_op s = (None, s)"


text \<open>An exchange as Express hands it to the first middleware: status 200, nothing sent.\<close>

definition incoming :: "string option \<Rightarrow> exchange" where
  "incoming header =
     \<lparr>req = \<lparr>authorization = header, user = None\<rparr>,
      res = \<lparr>status = 200, sent = []\<rparr>,
      console = []\<rparr>"

section \<open>The parse step in the specification's words\<close>

text \<open>
  The specification describes the parse step as "split on whitespace and take the second
  part". \<open>spec_ws_parts\<close> follows these words: the maximal runs of non-whitespace characters
  of the header, in order. It is compared below with what \<^verbatim>\<open>bearer.split(" ")\<close> yields.
\<close>

definition is_whitespace :: "char \<Rightarrow> bool" where
  "is_whitespace c = (c \<in> set [CHR '' '', CHR 0x09, CHR 0x0A, CHR 0x0B, CHR 0x0C, CHR 0x0D])"

definition spec_ws_parts :: "string \<Rightarrow> string list" where
  "spec_ws_parts header = filter (\<lambda>p. p \<noteq> []) (split_on is_whitespace header)"

section \<open>The contract of the signing package\<close>

text \<open>
  \<^verbatim>\<open>jwt.sign\<close> and \<^verbatim>\<open>jwt.verify\<close> come from the \<^verbatim>\<open>jsonwebtoken\<close> package, a dependency
  that is not among the sources. What the specification says of them is written down
  here as predicates on a package; a theorem about the gate or the issuer names the
  predicates it rests on. Whether a given token verifies is left to the package: the
  theorems about the gate take the answer of \<^verbatim>\<open>jwt.verify\<close> as it comes.
\<close>

text \<open>
  Modelled from the spec: the result of \<^verbatim>\<open>jwt.sign\<close> and \<^verbatim>\<open>jwt.verify\<close> on an identity
  claim. "Token: an opaque, signed string encoding the identity claim plus implicit
  standard claims (issued-at) added by the signing primitive"; verification is "a pure
  function of (token, secret, current time)" and the gate attaches "the decoded identity
  claim". So: under a non-empty secret, signing \<^verbatim>\<open>{ id, username }\<close> at time \<open>t\<close> gives
  a non-empty token, and verifying it under the same secret, at any time, gives the two
  fields followed by \<open>iat = t\<close>.
\<close>

definition jwt_sound :: "jwt \<Rightarrow> bool" where
  "jwt_sound jwt \<longleftrightarrow>
     (\<forall>a b key t now. key \<noteq> [] \<longrightarrow>
        (case sign jwt [(''id'', a), (''username'', b)] (Some key) t of
           Inl e \<Rightarrow> False
         | Inr tok \<Rightarrow>
             tok \<noteq> [] \<and>
             verify jwt tok (Some key) now =
               Inr [(''id'', a), (''username'', b), (''iat'', JNum (int t))]))"

text \<open>
  Modelled from the spec: what \<^verbatim>\<open>jwt.sign\<close> does without a secret (undefined or
  empty). Signing "fails with ConfigurationError if the signing secret is unavailable at
  call time". The specification says nothing of verification without a secret.
\<close>

definition jwt_requires_secret :: "jwt \<Rightarrow> bool" where
  "jwt_requires_secret jwt \<longleftrightarrow>
     (\<forall>claims secret t. \<not> truthy secret \<longrightarrow> sign jwt claims secret t = Inl ConfigurationError)"

section \<open>A reference signing package\<close>

text \<open>
  Modelled from the spec: a package standing in for \<^verbatim>\<open>jsonwebtoken\<close> wherever a concrete
  token is needed; it is shown below to meet the predicates above. The specification
  fixes no token format ("no guarantee of a fixed length or format"), so the format is a
  simple one of this theory's own, and the tag is not a cryptographic one: a token is the
  encoded payload, then the key, then the encoded payload again, which binds the key and
  the payload injectively. Numbers are written in unary (\<open>n\<close> times \<open>i\<close>, closed by
  a bar), a string with its length in front, an object with its number of entries in
  front; each decoder returns the value read and the rest of the input.
\<close>

definition enc_nat :: "nat \<Rightarrow> string" where
  "enc_nat n = replicate n (CHR ''i'') @ ''|''"

definition dec_nat :: "string \<Rightarrow> (nat \<times> string) option" where
  "dec_nat s =
     (case dropWhile (\<lambda>c. c = CHR ''i'') s of
        [] \<Rightarrow> None
      | c # r \<Rightarrow>
          if c = CHR ''|'' then Some (length (takeWhile (\<lambda>c. c = CHR ''i'') s), r)
          else None)"

definition enc_str :: "string \<Rightarrow> string" where
  "enc_str v = enc_nat (length v) @ v"

definition dec_str :: "string \<Rightarrow> (string \<times> string) option" where
  "dec_str s =
     (case dec_nat s of
        None \<Rightarrow> None
      | Some (n, r) \<Rightarrow> if n \<le> length r then Some (take n r, drop n r) else None)"

definition enc_int :: "int \<Rightarrow> string" where
  "enc_int i = (if i < 0 then CHR ''-'' else CHR ''+'') # enc_nat (nat \<bar>i\<bar>)"

definition dec_int :: "string \<Rightarrow> (int \<times> string) option" where
  "dec_int s =
     (case s of
        [] \<Rightarrow> None
      | c # r \<Rightarrow>
          (case dec_nat r of
             None \<Rightarrow> None
           | Some (n, r') \<Rightarrow>
               if c = CHR ''-'' then Some (- int n, r')
               else if c = CHR ''+'' then Some (int n, r')
               else None))"

fun enc_val :: "jvalue \<Rightarrow> string" where
  "enc_val (JStr v) = CHR ''s'' # enc_str v"
| "enc_val (JNum i) = CHR ''n'' # enc_int i"

definition dec_val :: "string \<Rightarrow> (jvalue \<times> string) option" where
  "dec_val s =
     (case s of
        [] \<Rightarrow> None
      | c # r \<Rightarrow>
          if c = CHR ''s'' then map_option (\<lambda>(v, r'). (JStr v, r')) (dec_str r)
          else if c = CHR ''n'' then map_option (\<lambda>(i, r'). (JNum i, r')) (dec_int r)
          else None)"

definition enc_entry :: "string \<times> jvalue \<Rightarrow> string" where
  "enc_entry e = enc_str (fst e) @ enc_val (snd e)"

definition dec_entry :: "string \<Rightarrow> ((string \<times> jvalue) \<times> string) option" where
  "dec_entry s =
     (case dec_str s of
        None \<Rightarrow> None
      | Some (k, r) \<Rightarrow> map_option (\<lambda>(v, r'). ((k, v), r')) (dec_val r))"

definition enc_obj :: "jobject \<Rightarrow> string" where
  "enc_obj obj = enc_nat (length obj) @ concat (map enc_entry obj)"

fun dec_entries :: "nat \<Rightarrow> string \<Rightarrow> (jobject \<times> string) option" where
  "dec_entries 0 s = Some ([], s)"
| "dec_entries (Suc n) s =
     (case dec_entry s of
        None \<Rightarrow> None
      | Some (e, r) \<Rightarrow> map_option (\<lambda>(es, r'). (e # es, r')) (dec_entries n r))"

definition dec_obj :: "string \<Rightarrow> (jobject \<times> string) option" where
  "dec_obj s = (case dec_nat s of None \<Rightarrow> None | Some (n, r) \<Rightarrow> dec_entries n r)"

definition token_of :: "jobject \<Rightarrow> string \<Rightarrow> string" where
  "token_of payload key = enc_obj payload @ enc_str key @ enc_obj payload"

text \<open>
  Modelled from the spec: \<^verbatim>\<open>jwt.sign\<close>. Signing adds the issued-at claim; a missing
  or empty secret is refused with the configuration error.
\<close>

definition ref_sign :: "jobject \<Rightarrow> string option \<Rightarrow> nat \<Rightarrow> jwt_error + string" where
  "ref_sign claims secret now =
     (case secret of
        None \<Rightarrow> Inl ConfigurationError
      | Some key \<Rightarrow>
          if key = [] then Inl ConfigurationError
          else Inr (token_of (claims @ [(''iat'', JNum (int now))]) key))"

text \<open>
  Modelled from the spec: \<^verbatim>\<open>jwt.verify\<close>. Verifying decodes the payload, signs it again
  with the given key and compares ("signature validity"); a payload with an \<open>exp\<close>
  claim is refused from that second on ("any embedded expiry").
\<close>

definition ref_verify :: "string \<Rightarrow> string option \<Rightarrow> nat \<Rightarrow> jwt_error + jobject" where
  "ref_verify token secret now =
     (case secret of
        None \<Rightarrow> Inl JsonWebTokenError
      | Some key \<Rightarrow>
          if key = [] then Inl JsonWebTokenError
          else
            (case dec_obj token of
               None \<Rightarrow> Inl JsonWebTokenError
             | Some (payload, _) \<Rightarrow>
                 if token \<noteq> token_of payload key then Inl JsonWebTokenError
                 else
                   (case map_of payload ''exp'' of
                      Some (JNum e) \<Rightarrow>
                        if e \<le> int now then Inl TokenExpiredError else Inr payload
                    | _ \<Rightarrow> Inr payload)))"

definition ref_jwt :: jwt where
  "ref_jwt = \<lparr>sign = ref_sign, verify = ref_verify\<rparr>"

section \<open>A package with the keys of HS256\<close>

text \<open>
  \<^verbatim>\<open>jwt.sign\<close> called with a string secret and no options, as \<^verbatim>\<open>createJWT\<close> calls it,
  signs with HS256, which is HMAC with SHA-256; and HMAC extends a key shorter than the
  64-byte block of the hash with zero bytes before it uses it. The package below is the
  reference package with that one step in front of signing and of verifying (a longer
  key, which HMAC would hash, is left as it is). It meets \<open>jwt_sound\<close> as the reference
  package does; two secrets that differ only in zero bytes at the end are one key to it.
\<close>

definition hmac_key :: "string \<Rightarrow> string" where
  "hmac_key key = key @ replicate (64 - length key) (CHR 0x00)"

definition hs_jwt :: jwt where
  "hs_jwt =
     \<lparr>sign = (\<lambda>claims secret now.
         if truthy secret then ref_sign claims (map_option hmac_key secret) now
         else Inl ConfigurationError),
      verify = (\<lambda>token secret now.
         if truthy secret then ref_verify token (map_option hmac_key secret) now
         else Inl JsonWebTokenError)\<rparr>"

section \<open>Fixtures\<close>

text \<open>An environment with a secret, a user, and the token issued to it at time 0.\<close>

definition env0 :: env where
  "env0 = [''JWT_SECRET'' \<mapsto> ''s3cret'']"

definition bob :: user where
  "bob = \<lparr>user_id = JNum 1, username = JStr ''bob''\<rparr>"

definition bob_token :: string where
  "bob_token =
     token_of [(''id'', JNum 1), (''username'', JStr ''bob''), (''iat'', JNum 0)] ''s3cret''"

text \<open>
  The same claims signed under another secret; the token of \<open>bob\<close> with its first
  character replaced, and with its fourth character replaced by a space; a token whose
  \<open>exp\<close> claim is 5; and the token the HS256-keyed package issues for the same claims
  under the secret \<^verbatim>\<open>s3cret\<close> followed by a zero byte.
\<close>

definition forged_token :: string where
  "forged_token =
     token_of [(''id'', JNum 1), (''username'', JStr ''bob''), (''iat'', JNum 0)] ''other''"




definition expired_token :: string where
  "expired_token =
     token_of [(''id'', JNum 1), (''username'', JStr ''bob''), (''exp'', JNum 5), (''iat'', JNum 0)]
       ''s3cret''"


section \<open>Outcomes of a middleware\<close>


definition rejects :: "(handler \<Rightarrow> exchange \<Rightarrow> exchange) \<Rightarrow> exchange \<Rightarrow> bool" where
  "rejects gate s \<longleftrightarrow>
     (\<exists>entries. \<forall>next. gate next s =
        s\<lparr>res := (res s)\<lparr>status := 401, sent := sent (res s) @ [''Not authorized'']\<rparr>,
          console := console s @ entries\<rparr>)"

section \<open>Facts about splitting\<close>

lemma split_on_not_Nil: "split_on sep cs \<noteq> []"
  by (induction cs) (auto split: list.splits)

lemma split_on_no_sep: "\<forall>c \<in> set a. \<not> sep c \<Longrightarrow> split_on sep a = [a]"
  by (induction a) auto

text \<open>
  \<open>split_on\<close> is the split of JavaScript: one part more than there are separators, no
  separator inside a part, and every other character kept, in order.
\<close>

lemma split_on_length: "length (split_on sep cs) = Suc (length (filter sep cs))"
  by (induction cs) (auto split: list.splits)

lemma split_on_parts: "\<forall>p \<in> set (split_on sep cs). \<forall>c \<in> set p. \<not> sep c"
  by (induction cs) (auto split: list.splits)

lemma split_on_concat: "concat (split_on sep cs) = filter (\<lambda>c. \<not> sep c) cs"
  by (induction cs) (auto split: list.splits)

lemma split_on_first: "\<forall>c \<in> set a. \<not> sep c \<Longrightarrow> sep x \<Longrightarrow> split_on sep (a @ x # r) = a # split_on sep r"
  by (induction a) auto



section \<open>Facts about the reference package\<close>

lemma dropWhile_run: "x \<noteq> y \<Longrightarrow> dropWhile (\<lambda>c. c = x) (replicate n x @ y # r) = y # r"
  by (induction n) simp_all

lemma takeWhile_run: "x \<noteq> y \<Longrightarrow> takeWhile (\<lambda>c. c = x) (replicate n x @ y # r) = replicate n x"
  by (induction n) simp_all

lemma dec_nat_enc: "dec_nat (enc_nat n @ r) = Some (n, r)"
  by (simp add: dec_nat_def enc_nat_def dropWhile_run takeWhile_run)

lemma dec_str_enc: "dec_str (enc_str v @ r) = Some (v, r)"
  by (simp add: dec_str_def enc_str_def dec_nat_enc)

lemma dec_int_enc: "dec_int (enc_int i @ r) = Some (i, r)"
  by (simp add: dec_int_def enc_int_def dec_nat_enc)

lemma dec_val_enc: "dec_val (enc_val v @ r) = Some (v, r)"
  by (cases v) (simp_all add: dec_val_def dec_str_enc dec_int_enc)

lemma dec_entry_enc: "dec_entry (enc_entry e @ r) = Some (e, r)"
  by (simp add: dec_entry_def enc_entry_def dec_str_enc dec_val_enc)

lemma dec_entries_enc:
  "dec_entries (length obj) (concat (map enc_entry obj) @ r) = Some (obj, r)"
  by (induction obj) (simp_all add: dec_entry_enc)

lemma dec_obj_enc: "dec_obj (enc_obj obj @ r) = Some (obj, r)"
  by (simp add: dec_obj_def enc_obj_def dec_nat_enc dec_entries_enc)

lemma enc_str_inj: "enc_str a = enc_str b \<Longrightarrow> a = b"
proof -
  assume "enc_str a = enc_str b"
  then have "dec_str (enc_str a @ []) = dec_str (enc_str b @ [])" by simp
  then show "a = b" by (simp only: dec_str_enc) simp
qed

lemma token_of_key: "token_of p k = token_of p k' \<Longrightarrow> k = k'"
  by (simp add: token_of_def enc_str_inj)

lemma dec_obj_token: "dec_obj (token_of p k) = Some (p, enc_str k @ enc_obj p)"
  by (simp add: token_of_def dec_obj_enc)

lemma token_of_not_Nil: "token_of p k \<noteq> []"
  by (simp add: token_of_def enc_obj_def enc_nat_def)

lemma ref_verify_token:
  "k \<noteq> [] \<Longrightarrow> map_of p ''exp'' = None \<Longrightarrow> ref_verify (token_of p k) (Some k) now = Inr p"
  by (simp add: ref_verify_def dec_obj_token)

text \<open>The reference package meets each clause of the contract.\<close>

lemma ref_jwt_sound: "jwt_sound ref_jwt"
  by (simp add: jwt_sound_def ref_jwt_def ref_sign_def token_of_not_Nil ref_verify_token)

lemma ref_jwt_requires_secret: "jwt_requires_secret ref_jwt"
  unfolding jwt_requires_secret_def
proof (intro allI impI)
  fix claims secret and t :: nat
  assume "\<not> truthy secret"
  then have "secret = None \<or> secret = Some []" by (cases secret) simp_all
  then show "sign ref_jwt claims secret t = Inl ConfigurationError"
    by (auto simp: ref_jwt_def ref_sign_def)
qed

text \<open>The HS256-keyed package meets the same predicates.\<close>

lemma hmac_key_not_Nil: "key \<noteq> [] \<Longrightarrow> hmac_key key \<noteq> []"
  by (simp add: hmac_key_def)

lemma hs_jwt_sound: "jwt_sound hs_jwt"
  by (simp add: jwt_sound_def hs_jwt_def ref_sign_def token_of_not_Nil ref_verify_token
      hmac_key_not_Nil)

lemma hs_jwt_requires_secret: "jwt_requires_secret hs_jwt"
  by (simp add: jwt_requires_secret_def hs_jwt_def)


section \<open>Facts about the fixtures\<close>

lemma bob_issued: "createJWT ref_jwt env0 0 bob = Inr bob_token"
  by (simp add: createJWT_def ref_jwt_def ref_sign_def env0_def bob_def bob_token_def)

lemma bob_token_not_Nil: "bob_token \<noteq> []"
  by (simp add: bob_token_def token_of_not_Nil)

lemma bob_verified:
  "verify ref_jwt bob_token (env0 ''JWT_SECRET'') now =
     Inr [(''id'', JNum 1), (''username'', JStr ''bob''), (''iat'', JNum 0)]"
  by (simp add: ref_jwt_def env0_def bob_token_def ref_verify_token)

lemma split_tab: "second (split_space (''Bearer'' @ [CHR 0x09] @ bob_token)) = None"
  by code_simp

lemma ws_tab: "second (spec_ws_parts (''Bearer'' @ [CHR 0x09] @ bob_token)) = Some bob_token"
  by code_simp

lemma bob_header: "second (split_space (''Bearer '' @ bob_token)) = Some bob_token"
  by code_simp

lemma ws_double: "second (spec_ws_parts (''Bearer  '' @ bob_token)) = Some bob_token"
  by code_simp

lemma split_double: "second (split_space (''Bearer  '' @ bob_token)) = Some []"
  by code_simp

lemma bob_token_plain: "CHR '' '' \<notin> set bob_token"
  by code_simp


lemma forged_header: "second (split_space (''Bearer '' @ forged_token)) = Some forged_token"
  by code_simp

lemma expired_header: "second (split_space (''Bearer '' @ expired_token)) = Some expired_token"
  by code_simp

lemma expired_refused: "verify ref_jwt expired_token (env0 ''JWT_SECRET'') 10 = Inl TokenExpiredError"
  by (simp add: ref_jwt_def env0_def expired_token_def ref_verify_def dec_obj_token)

lemma forged_differs:
  "token_of p ''other'' \<noteq> token_of p ''s3cret''"
proof
  assume "token_of p ''other'' = token_of p ''s3cret''"
  then have "''other'' = ''s3cret''" by (rule token_of_key)
  then show False by simp
qed

lemma forged_refused: "verify ref_jwt forged_token (env0 ''JWT_SECRET'') now = Inl JsonWebTokenError"
  by (simp add: ref_jwt_def env0_def forged_token_def ref_verify_def dec_obj_token forged_differs)










section \<open>Using the contract\<close>

lemma jwt_soundD:
  assumes "jwt_sound jwt" and "key \<noteq> []"
  shows "\<exists>tok. sign jwt [(''id'', a), (''username'', b)] (Some key) t = Inr tok \<and> tok \<noteq> [] \<and>
           verify jwt tok (Some key) now = Inr [(''id'', a), (''username'', b), (''iat'', JNum (int t))]"
proof -
  from assms have
    "case sign jwt [(''id'', a), (''username'', b)] (Some key) t of
       Inl e \<Rightarrow> False
     | Inr tok \<Rightarrow>
         tok \<noteq> [] \<and>
         verify jwt tok (Some key) now = Inr [(''id'', a), (''username'', b), (''iat'', JNum (int t))]"
    unfolding jwt_sound_def by fast
  then show ?thesis
    by (cases "sign jwt [(''id'', a), (''username'', b)] (Some key) t") simp_all
qed

lemma jwt_requires_secretD:
  "jwt_requires_secret jwt \<Longrightarrow> \<not> truthy secret \<Longrightarrow>
   sign jwt claims secret t = Inl ConfigurationError"
  unfolding jwt_requires_secret_def by fast

section \<open>The branches of the gate\<close>

lemma protect_reject_parse:
  "authorization (req s) = Some h \<Longrightarrow> \<not> truthy (second (split_space h)) \<Longrightarrow>
   protect jwt env now next s =
     s\<lparr>res := (res s)\<lparr>status := 401, sent := sent (res s) @ [''Not authorized'']\<rparr>,
       console := console s @ (if h = [] then [] else [Out ''here''])\<rparr>"
  by (simp add: protect_def res_send_def res_status_def console_log_def)

lemma protect_verify:
  "authorization (req s) = Some h \<Longrightarrow> second (split_space h) = Some tok \<Longrightarrow> tok \<noteq> [] \<Longrightarrow>
   protect jwt env now next s =
     (case verify jwt tok (env ''JWT_SECRET'') now of
        Inr payload \<Rightarrow>
          after_next (next (s\<lparr>req := (req s)\<lparr>user := Some payload\<rparr>,
                              console := console s @ [OutObject payload]\<rparr>))
      | Inl e \<Rightarrow>
          s\<lparr>res := (res s)\<lparr>status := 401, sent := sent (res s) @ [''Not authorized'']\<rparr>,
            console := console s @ [Err (JwtThrown e)]\<rparr>)"
proof -
  assume a: "authorization (req s) = Some h" "second (split_space h) = Some tok" "tok \<noteq> []"
  then have "h \<noteq> []" by (auto simp: split_space_def)
  with a show ?thesis
    by (simp add: protect_def caught_def res_send_def res_status_def console_log_def
        set_req_user_def split: sum.splits)
qed

lemma protect_no_header:
  "authorization (req s) = None \<Longrightarrow>
   protect jwt env now next s =
     s\<lparr>res := (res s)\<lparr>status := 401, sent := sent (res s) @ [''Not authorized'']\<rparr>\<rparr>"
  by (simp add: protect_def res_send_def res_status_def)

lemma rejects_no_header: "authorization (req s) = None \<Longrightarrow> rejects (protect jwt env now) s"
  unfolding rejects_def by (rule exI [of _ "[]"]) (simp add: protect_no_header)

lemma rejects_parse:
  "authorization (req s) = Some h \<Longrightarrow> \<not> truthy (second (split_space h)) \<Longrightarrow>
   rejects (protect jwt env now) s"
  unfolding rejects_def
  by (rule exI [of _ "if h = [] then [] else [Out ''here'']"]) (simp add: protect_reject_parse)

lemma rejects_verify:
  "authorization (req s) = Some h \<Longrightarrow> second (split_space h) = Some tok \<Longrightarrow>
   verify jwt tok (env ''JWT_SECRET'') now = Inl e \<Longrightarrow> rejects (protect jwt env now) s"
proof (cases "tok = []")
  case True
  assume "authorization (req s) = Some h" "second (split_space h) = Some tok"
  with True show ?thesis by (simp add: rejects_parse)
next
  case False
  assume "authorization (req s) = Some h" "second (split_space h) = Some tok"
    "verify jwt tok (env ''JWT_SECRET'') now = Inl e"
  with False show ?thesis
    unfolding rejects_def by (intro exI [of _ "[Err (JwtThrown e)]"]) (simp add: protect_verify)
qed



text \<open>
  The pipeline of \<^verbatim>\<open>server.ts\<close> for a request under \<^verbatim>\<open>/api\<close>: when the gate rejects,
  the router is not run, and nothing is thrown.
\<close>

lemma app_api_rejects:
  assumes "rejects (protect jwt env now) (console_log (Out ''Hello from Customer Logger Test'') s)"
  shows "fst (app_api jwt env now router s) = None \<and>
         res (snd (app_api jwt env now router s)) =
           (res s)\<lparr>status := 401, sent := sent (res s) @ [''Not authorized'']\<rparr> \<and>
         req (snd (app_api jwt env now router s)) = req s"
proof -
  from assms obtain entries where
    "protect jwt env now router (console_log (Out ''Hello from Customer Logger Test'') s) =
       (console_log (Out ''Hello from Customer Logger Test'') s)
         \<lparr>res := (res (console_log (Out ''Hello from Customer Logger Test'') s))
            \<lparr>status := 401,
              sent := sent (res (console_log (Out ''Hello from Customer Logger Test'') s)) @
                [''Not authorized'']\<rparr>,
          console := console (console_log (Out ''Hello from Customer Logger Test'') s) @ entries\<rparr>"
    unfolding rejects_def by fast
  then show ?thesis by (simp add: app_api_def customLogger_def console_log_def)
qed

section \<open>The gate: rejections\<close>

text \<open>
  Claim C2. A request with no \<^verbatim>\<open>Authorization\<close> header leaves the gate with status 401
  and the body \<^verbatim>\<open>Not authorized\<close> sent, and with nothing else changed. The result does
  not mention the continuation: \<open>next\<close> is not invoked, so nothing downstream runs.
\<close>

theorem protect_missing_header:
  "authorization (req s) = None \<Longrightarrow>
   protect jwt env now next s =
     s\<lparr>res := (res s)\<lparr>status := 401, sent := sent (res s) @ [''Not authorized'']\<rparr>\<rparr>"
  by (simp add: protect_def res_send_def res_status_def)

theorem protect_missing_header_witness:
  "authorization (req (incoming None)) = None \<and>
   protect ref_jwt env0 0 (customLogger ''router'' no_op) (incoming None) =
     \<lparr>req = \<lparr>authorization = None, user = None\<rparr>,
      res = \<lparr>status = 401, sent = [''Not authorized'']\<rparr>,
      console = []\<rparr>"
  using protect_missing_header [of "incoming None" ref_jwt env0 0 "customLogger ''router'' no_op"]
  by (simp add: incoming_def)




text \<open>
  Claim C7. Whatever makes the gate reject (no header; a header whose second part is
  missing or empty; a token whose verification throws, be it for its signature or for its
  expiry), the response is the same function of the response as it was: status 401 and
  the body \<^verbatim>\<open>Not authorized\<close> appended. Neither the cause nor the error thrown occurs in
  it, and the request is left as it was. (The cause goes to the console only.)
\<close>

theorem protect_uniform_rejection:
  assumes "authorization (req s) = None \<or>
           (\<exists>h. authorization (req s) = Some h \<and> \<not> truthy (second (split_space h))) \<or>
           (\<exists>h tok e. authorization (req s) = Some h \<and> second (split_space h) = Some tok \<and>
              verify jwt tok (env ''JWT_SECRET'') now = Inl e)"
  shows "res (protect jwt env now next s) =
           (res s)\<lparr>status := 401, sent := sent (res s) @ [''Not authorized'']\<rparr> \<and>
         req (protect jwt env now next s) = req s"
proof -
  from assms have "rejects (protect jwt env now) s"
    by (elim disjE exE conjE) (simp_all add: rejects_no_header rejects_parse rejects_verify)
  then obtain entries where
    "protect jwt env now next s =
       s\<lparr>res := (res s)\<lparr>status := 401, sent := sent (res s) @ [''Not authorized'']\<rparr>,
         console := console s @ entries\<rparr>"
    unfolding rejects_def by fast
  then show ?thesis by simp
qed

theorem protect_uniform_rejection_witness:
  "res (protect ref_jwt env0 10 (customLogger ''router'' no_op) (incoming None)) =
     \<lparr>status = 401, sent = [''Not authorized'']\<rparr> \<and>
   res (protect ref_jwt env0 10 (customLogger ''router'' no_op) (incoming (Some ''Bearer''))) =
     \<lparr>status = 401, sent = [''Not authorized'']\<rparr> \<and>
   verify ref_jwt forged_token (env0 ''JWT_SECRET'') 10 = Inl JsonWebTokenError \<and>
   res (protect ref_jwt env0 10 (customLogger ''router'' no_op) (incoming (Some (''Bearer '' @ forged_token)))) =
     \<lparr>status = 401, sent = [''Not authorized'']\<rparr> \<and>
   verify ref_jwt expired_token (env0 ''JWT_SECRET'') 10 = Inl TokenExpiredError \<and>
   res (protect ref_jwt env0 10 (customLogger ''router'' no_op) (incoming (Some (''Bearer '' @ expired_token)))) =
     \<lparr>status = 401, sent = [''Not authorized'']\<rparr>"
proof -
  let ?next = "customLogger ''router'' no_op"
  have 1: "authorization (req (incoming None)) = None \<or>
           (\<exists>h. authorization (req (incoming None)) = Some h \<and> \<not> truthy (second (split_space h))) \<or>
           (\<exists>h tok e. authorization (req (incoming None)) = Some h \<and> second (split_space h) = Some tok \<and>
              verify ref_jwt tok (env0 ''JWT_SECRET'') 10 = Inl e)"
    by (simp add: incoming_def)
  have 2: "authorization (req (incoming (Some ''Bearer''))) = None \<or>
           (\<exists>h. authorization (req (incoming (Some ''Bearer''))) = Some h \<and> \<not> truthy (second (split_space h))) \<or>
           (\<exists>h tok e. authorization (req (incoming (Some ''Bearer''))) = Some h \<and> second (split_space h) = Some tok \<and>
              verify ref_jwt tok (env0 ''JWT_SECRET'') 10 = Inl e)"
    by (simp add: incoming_def split_space_def is_space_def)
  have 3: "authorization (req (incoming (Some (''Bearer '' @ forged_token)))) = None \<or>
           (\<exists>h. authorization (req (incoming (Some (''Bearer '' @ forged_token)))) = Some h \<and> \<not> truthy (second (split_space h))) \<or>
           (\<exists>h tok e. authorization (req (incoming (Some (''Bearer '' @ forged_token)))) = Some h \<and> second (split_space h) = Some tok \<and>
              verify ref_jwt tok (env0 ''JWT_SECRET'') 10 = Inl e)"
    using forged_header forged_refused [of 10]
    by (intro disjI2 exI [of _ "''Bearer '' @ forged_token"] exI [of _ forged_token]
        exI [of _ JsonWebTokenError] conjI) (simp_all add: incoming_def)
  have 4: "authorization (req (incoming (Some (''Bearer '' @ expired_token)))) = None \<or>
           (\<exists>h. authorization (req (incoming (Some (''Bearer '' @ expired_token)))) = Some h \<and> \<not> truthy (second (split_space h))) \<or>
           (\<exists>h tok e. authorization (req (incoming (Some (''Bearer '' @ expired_token)))) = Some h \<and> second (split_space h) = Some tok \<and>
              verify ref_jwt tok (env0 ''JWT_SECRET'') 10 = Inl e)"
    using expired_header expired_refused
    by (intro disjI2 exI [of _ "''Bearer '' @ expired_token"] exI [of _ expired_token]
        exI [of _ TokenExpiredError] conjI) (simp_all add: incoming_def)
  show ?thesis
    using protect_uniform_rejection [where env = env0 and now = 10 and jwt = ref_jwt, OF 1, of ?next]
      protect_uniform_rejection [where env = env0 and now = 10 and jwt = ref_jwt, OF 2, of ?next]
      protect_uniform_rejection [where env = env0 and now = 10 and jwt = ref_jwt, OF 3, of ?next]
      protect_uniform_rejection [where env = env0 and now = 10 and jwt = ref_jwt, OF 4, of ?next]
      forged_refused [of 10] expired_refused
    by (simp add: incoming_def)
qed

section \<open>The gate: parsing the header\<close>

text \<open>
  Claim C3, as amended. When the header is present, the gate cuts it at every single space
  character and looks at the element at index 1. If that element is missing or empty the
  gate rejects (401, continuation not applied). Otherwise that element, and nothing else
  of the header, is what is verified, and the outcome is the one verification gives.
\<close>

theorem protect_splits_on_space:
  assumes "authorization (req s) = Some h"
  shows "(\<not> truthy (second (split_space h)) \<longrightarrow> rejects (protect jwt env now) s) \<and>
         (\<forall>tok. second (split_space h) = Some tok \<and> tok \<noteq> [] \<longrightarrow>
            protect jwt env now next s =
              (case verify jwt tok (env ''JWT_SECRET'') now of
                 Inr payload \<Rightarrow>
                   after_next (next (s\<lparr>req := (req s)\<lparr>user := Some payload\<rparr>,
                                       console := console s @ [OutObject payload]\<rparr>))
               | Inl e \<Rightarrow>
                   s\<lparr>res := (res s)\<lparr>status := 401, sent := sent (res s) @ [''Not authorized'']\<rparr>,
                     console := console s @ [Err (JwtThrown e)]\<rparr>))"
  using assms by (simp add: rejects_parse protect_verify)

theorem protect_splits_on_space_witness:
  "authorization (req (incoming (Some ''Bearer''))) = Some ''Bearer'' \<and>
   \<not> truthy (second (split_space ''Bearer'')) \<and>
   rejects (protect ref_jwt env0 0) (incoming (Some ''Bearer'')) \<and>
   second (split_space (''Bearer '' @ bob_token)) = Some bob_token \<and> bob_token \<noteq> [] \<and>
   protect ref_jwt env0 0 (customLogger ''router'' no_op) (incoming (Some (''Bearer '' @ bob_token))) =
     \<lparr>req = \<lparr>authorization = Some (''Bearer '' @ bob_token),
             user = Some [(''id'', JNum 1), (''username'', JStr ''bob''), (''iat'', JNum 0)]\<rparr>,
      res = \<lparr>status = 200, sent = []\<rparr>,
      console = [OutObject [(''id'', JNum 1), (''username'', JStr ''bob''), (''iat'', JNum 0)],
                 Out ''Hello from router'']\<rparr>"
proof -
  have a: "authorization (req (incoming (Some ''Bearer''))) = Some ''Bearer''"
    by (simp add: incoming_def)
  have b: "\<not> truthy (second (split_space ''Bearer''))"
    by (simp add: split_space_def is_space_def)
  have c: "authorization (req (incoming (Some (''Bearer '' @ bob_token)))) = Some (''Bearer '' @ bob_token)"
    by (simp add: incoming_def)
  have d: "second (split_space (''Bearer '' @ bob_token)) = Some bob_token"
    by code_simp
  show ?thesis
    using protect_splits_on_space [OF a, of ref_jwt env0 0 "customLogger ''router'' no_op"]
      protect_splits_on_space [OF c, of ref_jwt env0 0 "customLogger ''router'' no_op"]
      a b d bob_token_not_Nil bob_verified [of 0]
    by (simp add: incoming_def customLogger_def console_log_def no_op_def after_next_def)
qed

text \<open>
  Claim C3 as stated says the header is split on whitespace. It is not: with a tab between
  the scheme and a token that verifies, the second whitespace-separated part is that
  token, but the split on the space character yields one part only, and the gate rejects
  without verifying anything.
\<close>

theorem protect_tab_counterexample:
  "second (spec_ws_parts (''Bearer'' @ [CHR 0x09] @ bob_token)) = Some bob_token \<and>
   verify ref_jwt bob_token (env0 ''JWT_SECRET'') 0 =
     Inr [(''id'', JNum 1), (''username'', JStr ''bob''), (''iat'', JNum 0)] \<and>
   second (split_space (''Bearer'' @ [CHR 0x09] @ bob_token)) = None \<and>
   protect ref_jwt env0 0 (customLogger ''router'' no_op)
       (incoming (Some (''Bearer'' @ [CHR 0x09] @ bob_token))) =
     \<lparr>req = \<lparr>authorization = Some (''Bearer'' @ [CHR 0x09] @ bob_token), user = None\<rparr>,
      res = \<lparr>status = 401, sent = [''Not authorized'']\<rparr>,
      console = [Out ''here'']\<rparr>"
proof -
  have a: "authorization (req (incoming (Some (''Bearer'' @ [CHR 0x09] @ bob_token)))) =
           Some (''Bearer'' @ [CHR 0x09] @ bob_token)"
    by (simp add: incoming_def)
  have b: "\<not> truthy (second (split_space (''Bearer'' @ [CHR 0x09] @ bob_token)))"
    by (simp only: split_tab) simp
  show ?thesis
    using protect_reject_parse [OF a b, of ref_jwt env0 0 "customLogger ''router'' no_op"]
      ws_tab split_tab bob_verified [of 0]
    by (simp add: incoming_def)
qed

section \<open>The gate: forwarding\<close>

text \<open>
  Claim C1, as amended. Take a signing package that meets \<open>jwt_sound\<close>, a configured
  non-empty secret, and a token that \<^verbatim>\<open>createJWT\<close> issued for a user under that secret.
  For every request whose header, cut at the single space characters, has this token at
  index 1, the gate applies the continuation, and the exchange the continuation receives
  has \<^verbatim>\<open>req.user\<close> set (not undefined) to the payload with exactly the \<open>id\<close> and
  \<open>username\<close> given to \<^verbatim>\<open>createJWT\<close>, followed by the issued-at claim.
  (\<^verbatim>\<open>createJWT\<close> sets no expiry, so such a token is unexpired at every time.) This holds
  for every continuation, one that throws included.
\<close>

theorem protect_forwards_issued_token:
  assumes "jwt_sound jwt"
    and "env ''JWT_SECRET'' = Some key" and "key \<noteq> []"
    and "createJWT jwt env t u = Inr tok"
    and "authorization (req s) = Some h"
    and "second (split_space h) = Some tok"
  shows "protect jwt env now next s =
           after_next
             (next (s\<lparr>req := (req s)\<lparr>user :=
                        Some [(''id'', user_id u), (''username'', username u), (''iat'', JNum (int t))]\<rparr>,
                      console := console s @
                        [OutObject [(''id'', user_id u), (''username'', username u), (''iat'', JNum (int t))]]\<rparr>))"
proof -
  from assms(2,4) have
    signed: "sign jwt [(''id'', user_id u), (''username'', username u)] (Some key) t = Inr tok"
    by (simp add: createJWT_def)
  from jwt_soundD [OF assms(1,3), of "user_id u" "username u" t now] signed
  have ne: "tok \<noteq> []"
    and v: "verify jwt tok (env ''JWT_SECRET'') now =
           Inr [(''id'', user_id u), (''username'', username u), (''iat'', JNum (int t))]"
    using assms(2) by auto
  from assms(5,6) ne v show ?thesis by (simp add: protect_verify)
qed

theorem protect_forwards_issued_token_witness:
  "jwt_sound ref_jwt \<and> env0 ''JWT_SECRET'' = Some ''s3cret'' \<and>
   createJWT ref_jwt env0 0 bob = Inr bob_token \<and>
   second (split_space (''Bearer '' @ bob_token)) = Some bob_token \<and>
   protect ref_jwt env0 5 (customLogger ''router'' no_op) (incoming (Some (''Bearer '' @ bob_token))) =
     \<lparr>req = \<lparr>authorization = Some (''Bearer '' @ bob_token),
             user = Some [(''id'', JNum 1), (''username'', JStr ''bob''), (''iat'', JNum 0)]\<rparr>,
      res = \<lparr>status = 200, sent = []\<rparr>,
      console = [OutObject [(''id'', JNum 1), (''username'', JStr ''bob''), (''iat'', JNum 0)],
                 Out ''Hello from router'']\<rparr>"
proof -
  have k: "env0 ''JWT_SECRET'' = Some ''s3cret''" by (simp add: env0_def)
  have ne: "''s3cret'' \<noteq> []" by simp
  have a: "authorization (req (incoming (Some (''Bearer '' @ bob_token)))) = Some (''Bearer '' @ bob_token)"
    by (simp add: incoming_def)
  show ?thesis
    using protect_forwards_issued_token [OF ref_jwt_sound k ne bob_issued a bob_header,
        of 5 "customLogger ''router'' no_op"]
      ref_jwt_sound k bob_issued bob_header
    by (simp add: incoming_def customLogger_def console_log_def bob_def no_op_def after_next_def)
qed

text \<open>
  Claim C1 as stated takes the second whitespace-separated part of the header. With two
  spaces between the scheme and a token that \<^verbatim>\<open>createJWT\<close> issued under the configured
  secret, that part is the token, but the element at index 1 of the split on the space
  character is empty, and the gate rejects.
\<close>

theorem protect_double_space_counterexample:
  "createJWT ref_jwt env0 0 bob = Inr bob_token \<and>
   second (spec_ws_parts (''Bearer  '' @ bob_token)) = Some bob_token \<and>
   protect ref_jwt env0 0 (customLogger ''router'' no_op) (incoming (Some (''Bearer  '' @ bob_token))) =
     \<lparr>req = \<lparr>authorization = Some (''Bearer  '' @ bob_token), user = None\<rparr>,
      res = \<lparr>status = 401, sent = [''Not authorized'']\<rparr>,
      console = [Out ''here'']\<rparr>"
proof -
  have a: "authorization (req (incoming (Some (''Bearer  '' @ bob_token)))) =
           Some (''Bearer  '' @ bob_token)"
    by (simp add: incoming_def)
  have b: "\<not> truthy (second (split_space (''Bearer  '' @ bob_token)))"
    by (simp only: split_double) simp
  show ?thesis
    using protect_reject_parse [OF a b, of ref_jwt env0 0 "customLogger ''router'' no_op"]
      ws_double bob_issued
    by (simp add: incoming_def)
qed

text \<open>
  Claim C10. The scheme is never looked at: whatever word without a space stands before
  the single space, a token that verifies is forwarded.
\<close>

theorem protect_ignores_scheme:
  assumes "authorization (req s) = Some (scheme @ CHR '' '' # tok)"
    and "CHR '' '' \<notin> set scheme" and "CHR '' '' \<notin> set tok" and "tok \<noteq> []"
    and "verify jwt tok (env ''JWT_SECRET'') now = Inr payload"
  shows "protect jwt env now next s =
           after_next (next (s\<lparr>req := (req s)\<lparr>user := Some payload\<rparr>,
                               console := console s @ [OutObject payload]\<rparr>))"
proof -
  have "split_space (scheme @ CHR '' '' # tok) = scheme # split_space tok"
    unfolding split_space_def using assms(2)
    by (intro split_on_first) (auto simp: is_space_def)
  moreover have "split_space tok = [tok]"
    unfolding split_space_def using assms(3)
    by (intro split_on_no_sep) (auto simp: is_space_def)
  ultimately have "second (split_space (scheme @ CHR '' '' # tok)) = Some tok" by simp
  with assms(1,4,5) show ?thesis by (simp add: protect_verify)
qed

theorem protect_ignores_scheme_witness:
  "CHR '' '' \<notin> set ''Basic'' \<and> CHR '' '' \<notin> set bob_token \<and> bob_token \<noteq> [] \<and>
   protect ref_jwt env0 0 (customLogger ''router'' no_op) (incoming (Some (''Basic'' @ CHR '' '' # bob_token))) =
     \<lparr>req = \<lparr>authorization = Some (''Basic'' @ CHR '' '' # bob_token),
             user = Some [(''id'', JNum 1), (''username'', JStr ''bob''), (''iat'', JNum 0)]\<rparr>,
      res = \<lparr>status = 200, sent = []\<rparr>,
      console = [OutObject [(''id'', JNum 1), (''username'', JStr ''bob''), (''iat'', JNum 0)],
                 Out ''Hello from router'']\<rparr> \<and>
   protect ref_jwt env0 0 (customLogger ''router'' no_op) (incoming (Some (''X'' @ CHR '' '' # bob_token))) =
     \<lparr>req = \<lparr>authorization = Some (''X'' @ CHR '' '' # bob_token),
             user = Some [(''id'', JNum 1), (''username'', JStr ''bob''), (''iat'', JNum 0)]\<rparr>,
      res = \<lparr>status = 200, sent = []\<rparr>,
      console = [OutObject [(''id'', JNum 1), (''username'', JStr ''bob''), (''iat'', JNum 0)],
                 Out ''Hello from router'']\<rparr>"
proof -
  have a: "authorization (req (incoming (Some (''Basic'' @ CHR '' '' # bob_token)))) =
           Some (''Basic'' @ CHR '' '' # bob_token)"
    by (simp add: incoming_def)
  have a': "authorization (req (incoming (Some (''X'' @ CHR '' '' # bob_token)))) =
           Some (''X'' @ CHR '' '' # bob_token)"
    by (simp add: incoming_def)
  have b: "CHR '' '' \<notin> set ''Basic''" by simp
  have b': "CHR '' '' \<notin> set ''X''" by simp
  show ?thesis
    using protect_ignores_scheme [where env = env0 and now = 0,
          OF a b bob_token_plain bob_token_not_Nil bob_verified,
          of "customLogger ''router'' no_op"]
      protect_ignores_scheme [where env = env0 and now = 0,
          OF a' b' bob_token_plain bob_token_not_Nil bob_verified,
          of "customLogger ''router'' no_op"]
      bob_token_plain bob_token_not_Nil
    by (simp add: incoming_def customLogger_def console_log_def no_op_def after_next_def)
qed

section \<open>The gate: one outcome\<close>




section \<open>The token issuer\<close>

text \<open>
  Claim C5, as amended. For a signing package that meets \<open>jwt_sound\<close> and a configured
  non-empty secret, \<^verbatim>\<open>createJWT\<close> returns a token for every user, and verifying that
  token under the same secret, at any time, returns the \<open>id\<close> and \<open>username\<close> of the user
  followed by the issued-at claim: the identity is recovered, inside a payload that holds
  one more field.
\<close>

theorem verify_createJWT:
  assumes "jwt_sound jwt" and "env ''JWT_SECRET'' = Some key" and "key \<noteq> []"
  shows "\<exists>tok. createJWT jwt env t u = Inr tok \<and>
           verify jwt tok (env ''JWT_SECRET'') now =
             Inr ([(''id'', user_id u), (''username'', username u)] @ [(''iat'', JNum (int t))])"
  using jwt_soundD [OF assms(1,3), of "user_id u" "username u" t now] assms(2)
  by (auto simp: createJWT_def)

theorem verify_createJWT_witness:
  "jwt_sound ref_jwt \<and> env0 ''JWT_SECRET'' = Some ''s3cret'' \<and>
   createJWT ref_jwt env0 0 bob = Inr bob_token \<and>
   verify ref_jwt bob_token (env0 ''JWT_SECRET'') 7 =
     Inr [(''id'', JNum 1), (''username'', JStr ''bob''), (''iat'', JNum 0)]"
proof -
  have k: "env0 ''JWT_SECRET'' = Some ''s3cret''" by (simp add: env0_def)
  have ne: "''s3cret'' \<noteq> []" by simp
  show ?thesis
    using verify_createJWT [where env = env0, OF ref_jwt_sound k ne, of 0 bob 7]
      ref_jwt_sound k bob_issued
    by (simp add: bob_def)
qed

text \<open>
  Claim C5 as stated has the verified payload equal to the identity record. With the
  reference package the payload of the token issued to \<open>bob\<close> holds \<open>iat\<close> as well, so it
  is not the object \<^verbatim>\<open>{ id, username }\<close>.
\<close>

theorem verify_createJWT_counterexample:
  "createJWT ref_jwt env0 0 bob = Inr bob_token \<and>
   verify ref_jwt bob_token (env0 ''JWT_SECRET'') 0 \<noteq>
     Inr [(''id'', user_id bob), (''username'', username bob)]"
  using bob_issued bob_verified [of 0] by (simp add: bob_def)




section \<open>A missing secret\<close>

text \<open>
  Claim C9, as amended. Take a signing package whose \<^verbatim>\<open>jwt.sign\<close> refuses to work without
  a secret (\<open>jwt_requires_secret\<close>), and an environment where \<^verbatim>\<open>JWT_SECRET\<close> is undefined
  or empty. Then \<^verbatim>\<open>createJWT\<close> fails with the configuration error of \<^verbatim>\<open>jwt.sign\<close> and
  returns no token: the failure comes at the call. Nothing checks the secret at startup:
  \<^verbatim>\<open>index.ts\<close> starts listening all the same, with the environment as it is.
\<close>

theorem missing_secret_not_fatal:
  assumes "jwt_requires_secret jwt" and "\<not> truthy (env ''JWT_SECRET'')"
  shows "createJWT jwt env t u = Inl ConfigurationError \<and>
         listening (index_main env) = Some 3001 \<and> proc_env (index_main env) = env"
  using jwt_requires_secretD [OF assms] by (simp add: createJWT_def index_main_def)

theorem missing_secret_not_fatal_witness:
  "jwt_requires_secret ref_jwt \<and> \<not> truthy (Map.empty ''JWT_SECRET'') \<and>
   createJWT ref_jwt Map.empty 0 bob = Inl ConfigurationError \<and>
   listening (index_main Map.empty) = Some 3001"
proof -
  have a: "\<not> truthy ((Map.empty :: env) ''JWT_SECRET'')" by simp
  show ?thesis
    using missing_secret_not_fatal [OF ref_jwt_requires_secret a, of 0 bob]
      ref_jwt_requires_secret
    by simp
qed

text \<open>
  Claim C9 as stated has a missing secret stop the process at startup instead of being
  handled per request. With no \<^verbatim>\<open>JWT_SECRET\<close> at all the process listens on port 3001,
  and a request with a token is answered by the gate with 401.
\<close>

theorem startup_without_secret_counterexample:
  "(Map.empty :: env) ''JWT_SECRET'' = None \<and>
   listening (index_main Map.empty) = Some 3001 \<and>
   protect ref_jwt Map.empty 0 (customLogger ''router'' no_op) (incoming (Some (''Bearer '' @ bob_token))) =
     \<lparr>req = \<lparr>authorization = Some (''Bearer '' @ bob_token), user = None\<rparr>,
      res = \<lparr>status = 401, sent = [''Not authorized'']\<rparr>,
      console = [Err (JwtThrown JsonWebTokenError)]\<rparr>"
proof -
  have a: "authorization (req (incoming (Some (''Bearer '' @ bob_token)))) = Some (''Bearer '' @ bob_token)"
    by (simp add: incoming_def)
  have v: "verify ref_jwt bob_token ((Map.empty :: env) ''JWT_SECRET'') 0 = Inl JsonWebTokenError"
    by (simp add: ref_jwt_def ref_verify_def)
  show ?thesis
    using protect_verify [OF a bob_header bob_token_not_Nil, of ref_jwt Map.empty 0 "customLogger ''router'' no_op"] v
    by (simp add: index_main_def incoming_def)
qed

end
